theory Spec2Isabelle
  imports Main "HOL-Library.Word"
begin

section \<open>JavaScript strings\<close>

text \<open>
  A JavaScript string is a sequence of 16-bit code units. The query typed by the user,
  the messages and the endpoints of \<^verbatim>\<open>src/App.jsx\<close> are all values of this type; the
  literals of the source are ASCII and are written through \<open>ascii\<close>.
\<close>

type_synonym jsstring = "16 word list"

definition ascii :: "string \<Rightarrow> jsstring" where
  "ascii s = map (\<lambda>c. of_nat (of_char c)) s"

section \<open>Percent-encoding of the query\<close>

text \<open>
  \<^verbatim>\<open>encodeURIComponent\<close> (line 41) leaves the unreserved code units alone: the ASCII
  letters and digits and the marks \<^verbatim>\<open>- _ . ! ~ * ' ( )\<close>.
\<close>

definition uriUnreserved :: "16 word \<Rightarrow> bool" where
  "uriUnreserved c \<longleftrightarrow>
     (0x41 \<le> c \<and> c \<le> 0x5A) \<or> (0x61 \<le> c \<and> c \<le> 0x7A) \<or> (0x30 \<le> c \<and> c \<le> 0x39)
     \<or> c \<in> set [0x2D, 0x5F, 0x2E, 0x21, 0x7E, 0x2A, 0x27, 0x28, 0x29]"

text \<open>
  Every other code unit is read as a code point: a lead surrogate followed by a trail
  surrogate is one supplementary code point, any other surrogate is unpaired and makes
  \<^verbatim>\<open>encodeURIComponent\<close> throw \<^verbatim>\<open>URIError\<close>.
\<close>

definition isLeadSurrogate :: "16 word \<Rightarrow> bool" where
  "isLeadSurrogate c \<longleftrightarrow> 0xD800 \<le> c \<and> c \<le> 0xDBFF"

definition isTrailSurrogate :: "16 word \<Rightarrow> bool" where
  "isTrailSurrogate c \<longleftrightarrow> 0xDC00 \<le> c \<and> c \<le> 0xDFFF"

definition surrogatePair :: "16 word \<Rightarrow> 16 word \<Rightarrow> nat" where
  "surrogatePair lead trail = (unat lead - 0xD800) * 0x400 + (unat trail - 0xDC00) + 0x10000"

text \<open>The octets of the UTF-8 form of a code point, and one octet as \<^verbatim>\<open>%XX\<close>.\<close>

definition utf8 :: "nat \<Rightarrow> nat list" where
  "utf8 cp =
     (if cp < 0x80 then [cp]
      else if cp < 0x800 then [0xC0 + cp div 0x40, 0x80 + cp mod 0x40]
      else if cp < 0x10000 then
        [0xE0 + cp div 0x1000, 0x80 + (cp div 0x40) mod 0x40, 0x80 + cp mod 0x40]
      else
        [0xF0 + cp div 0x40000, 0x80 + (cp div 0x1000) mod 0x40,
         0x80 + (cp div 0x40) mod 0x40, 0x80 + cp mod 0x40])"

definition hexDigit :: "nat \<Rightarrow> 16 word" where
  "hexDigit d = (if d < 10 then of_nat (0x30 + d) else of_nat (0x41 + (d - 10)))"

definition escape :: "nat \<Rightarrow> jsstring" where
  "escape b = [0x25, hexDigit (b div 16), hexDigit (b mod 16)]"

text \<open>\<^verbatim>\<open>None\<close> is the thrown \<^verbatim>\<open>URIError\<close>.\<close>

fun encodeURIComponent :: "jsstring \<Rightarrow> jsstring option" where
  "encodeURIComponent [] = Some []"
| "encodeURIComponent (c # cs) =
     (if uriUnreserved c then map_option ((#) c) (encodeURIComponent cs)
      else if isLeadSurrogate c then
        (case cs of
           [] \<Rightarrow> None
         | d # ds \<Rightarrow>
             if isTrailSurrogate d
             then map_option ((@) (concat (map escape (utf8 (surrogatePair c d)))))
                    (encodeURIComponent ds)
             else None)
      else if isTrailSurrogate c then None
      else map_option ((@) (concat (map escape (utf8 (unat c))))) (encodeURIComponent cs))"

text \<open>
  \<^verbatim>\<open>decodeURIComponent\<close>, by which a percent-encoded segment is read back: it reads
  \<^verbatim>\<open>%XX\<close> escapes (either case of the hex digits), collects the continuation octets the
  first octet announces, rejects octets that are not the UTF-8 form of a code point
  (overlong forms, surrogates, values above 0x10FFFF) and writes the code point in UTF-16.
\<close>

definition hexValue :: "16 word \<Rightarrow> nat option" where
  "hexValue c =
     (if 0x30 \<le> c \<and> c \<le> 0x39 then Some (unat c - 0x30)
      else if 0x41 \<le> c \<and> c \<le> 0x46 then Some (unat c - 0x41 + 10)
      else if 0x61 \<le> c \<and> c \<le> 0x66 then Some (unat c - 0x61 + 10)
      else None)"

fun parseEscape :: "jsstring \<Rightarrow> (nat \<times> jsstring) option" where
  "parseEscape (p # h # l # rest) =
     (if p = 0x25 then
        (case hexValue h of
           None \<Rightarrow> None
         | Some a \<Rightarrow> (case hexValue l of None \<Rightarrow> None | Some b \<Rightarrow> Some (16 * a + b, rest)))
      else None)"
| "parseEscape _ = None"

fun continuationBytes :: "nat \<Rightarrow> jsstring \<Rightarrow> (nat list \<times> jsstring) option" where
  "continuationBytes 0 cs = Some ([], cs)"
| "continuationBytes (Suc n) cs =
     (case parseEscape cs of
        None \<Rightarrow> None
      | Some (b, rest) \<Rightarrow>
          (case continuationBytes n rest of
             None \<Rightarrow> None
           | Some (bs, rest') \<Rightarrow> Some (b # bs, rest')))"

definition leadingOnes :: "nat \<Rightarrow> nat" where
  "leadingOnes b =
     (if b < 0x80 then 0 else if b < 0xC0 then 1 else if b < 0xE0 then 2
      else if b < 0xF0 then 3 else if b < 0xF8 then 4 else 5)"

definition isContinuation :: "nat \<Rightarrow> bool" where
  "isContinuation b \<longleftrightarrow> 0x80 \<le> b \<and> b < 0xC0"

fun utf8Decode :: "nat list \<Rightarrow> nat option" where
  "utf8Decode [b0, b1] =
     (let cp = (b0 - 0xC0) * 0x40 + (b1 - 0x80)
      in if isContinuation b1 \<and> 0x80 \<le> cp then Some cp else None)"
| "utf8Decode [b0, b1, b2] =
     (let cp = (b0 - 0xE0) * 0x1000 + (b1 - 0x80) * 0x40 + (b2 - 0x80)
      in if isContinuation b1 \<and> isContinuation b2 \<and> 0x800 \<le> cp
            \<and> \<not> (0xD800 \<le> cp \<and> cp \<le> 0xDFFF)
         then Some cp else None)"
| "utf8Decode [b0, b1, b2, b3] =
     (let cp = (b0 - 0xF0) * 0x40000 + (b1 - 0x80) * 0x1000 + (b2 - 0x80) * 0x40 + (b3 - 0x80)
      in if isContinuation b1 \<and> isContinuation b2 \<and> isContinuation b3
            \<and> 0x10000 \<le> cp \<and> cp \<le> 0x10FFFF
         then Some cp else None)"
| "utf8Decode _ = None"

definition utf16 :: "nat \<Rightarrow> jsstring" where
  "utf16 cp =
     (if cp < 0x10000 then [of_nat cp]
      else [of_nat (0xD800 + (cp - 0x10000) div 0x400),
            of_nat (0xDC00 + (cp - 0x10000) mod 0x400)])"

function decodeURIComponent :: "jsstring \<Rightarrow> jsstring option" where
  "decodeURIComponent [] = Some []"
| "decodeURIComponent (c # cs) =
     (if c \<noteq> 0x25 then map_option ((#) c) (decodeURIComponent cs)
      else
        (case parseEscape (c # cs) of
           None \<Rightarrow> None
         | Some (b, rest) \<Rightarrow>
             let n = leadingOnes b in
             if n = 0 then map_option ((#) (of_nat b)) (decodeURIComponent rest)
             else if n = 1 \<or> n > 4 then None
             else
               (case continuationBytes (n - 1) rest of
                  None \<Rightarrow> None
                | Some (bs, rest') \<Rightarrow>
                    (case utf8Decode (b # bs) of
                       None \<Rightarrow> None
                     | Some cp \<Rightarrow> map_option ((@) (utf16 cp)) (decodeURIComponent rest')))))"
  by pat_completeness auto

text \<open>The code units that may stand in a querystring as they are.\<close>

definition urlSafe :: "16 word \<Rightarrow> bool" where
  "urlSafe c \<longleftrightarrow> uriUnreserved c \<or> c = 0x25"

text \<open>
  \<^verbatim>\<open>String.prototype.isWellFormed\<close>: no unpaired surrogate. These are the strings on
  which \<^verbatim>\<open>encodeURIComponent\<close> returns.
\<close>

fun isWellFormed :: "jsstring \<Rightarrow> bool" where
  "isWellFormed [] = True"
| "isWellFormed (c # cs) =
     (if isLeadSurrogate c then
        (case cs of [] \<Rightarrow> False | d # ds \<Rightarrow> isTrailSurrogate d \<and> isWellFormed ds)
      else \<not> isTrailSurrogate c \<and> isWellFormed cs)"

section \<open>The collaborators of the two resolvers\<close>

text \<open>
  What a \<^verbatim>\<open>try\<close> block of the component can raise: the two \<^verbatim>\<open>throw new Error\<close>
  statements (missing key, non-2xx status), a rejected \<^verbatim>\<open>fetch\<close>, a rejected
  \<^verbatim>\<open>response.json()\<close>, a property read on \<^verbatim>\<open>null\<close> or \<^verbatim>\<open>undefined\<close>, the
  \<^verbatim>\<open>URIError\<close> of \<^verbatim>\<open>encodeURIComponent\<close>, a read of an identifier that has no binding,
  and a rejected call into \<^verbatim>\<open>appwrite.js\<close>.
\<close>

datatype exn =
  MissingApiKey | HttpError nat | FetchRejected | JsonRejected | TypeError | URIError
  | ReferenceError | AppwriteRejected

text \<open>
  The body of a provider response, as far as the component reads it: \<^verbatim>\<open>data.Response\<close>,
  \<^verbatim>\<open>data.Error\<close> and \<^verbatim>\<open>data.results\<close>. \<open>None\<close> is a field that is absent or
  \<^verbatim>\<open>null\<close>; the component treats both alike (falsy, not equal to a string, and a
  property read on it throws). A field that is present has the type the provider gives
  it: the flag and the message are strings, the results are an array. A body that is a
  number, a string or an array has none of the three fields, and is the body with three
  times \<open>None\<close>. Movies are passed through unread, so their type is a parameter.
\<close>

record 'm tmdb_body =
  Response :: "jsstring option"
  Error :: "jsstring option"
  results :: "'m list option"

text \<open>
  The ways \<^verbatim>\<open>await response.json()\<close>, \<^verbatim>\<open>await fetch(endpoint, API_OPTIONS)\<close>, a write
  to the document store and \<^verbatim>\<open>await getTrendingMovies()\<close> can end. They are inputs of
  the model: the provider and the store are outside the component.
\<close>

datatype 'm json_outcome = JsonRejects | JsonNull | JsonObject "'m tmdb_body"

datatype 'm fetch_outcome = FetchRejects | Responds nat "'m json_outcome"

datatype call_outcome = Resolves | Rejects

datatype 'm cache_outcome = CacheRejects | CacheReturns "'m list option"

text \<open>\<^verbatim>\<open>response.ok\<close>: the status is in the range 200 to 299.\<close>

definition response_ok :: "nat \<Rightarrow> bool" where
  "response_ok status \<longleftrightarrow> 200 \<le> status \<and> status \<le> 299"

text \<open>
  \<^verbatim>\<open>API_KEY\<close> (line 13) is the environment value, \<^verbatim>\<open>undefined\<close> when it is not set.
  \<open>configured\<close> is the truthiness that \<^verbatim>\<open>!API_KEY\<close> negates.
\<close>

definition configured :: "jsstring option \<Rightarrow> bool" where
  "configured API_KEY = (case API_KEY of None \<Rightarrow> False | Some k \<Rightarrow> k \<noteq> [])"

definition API_BASE_URL :: jsstring where
  "API_BASE_URL = ascii ''https://api.themoviedb.org/3''"

section \<open>State and effects of the component\<close>

text \<open>
  The calls the component issues, in the order it issues them, and what it writes with
  \<^verbatim>\<open>console.error\<close> (tagged with the handler that wrote it).
\<close>

datatype log_site = FetchingMovies | FetchingTrending | AppwriteFallback

datatype 'm event =
  Fetch jsstring
  | UpdateSearchCount jsstring 'm
  | GetTrendingMovies
  | ConsoleError log_site exn

fun isNetworkRead :: "'m event \<Rightarrow> bool" where
  "isNetworkRead (Fetch url) = True"
| "isNetworkRead GetTrendingMovies = True"
| "isNetworkRead _ = False"

fun isNetworkWrite :: "'m event \<Rightarrow> bool" where
  "isNetworkWrite (UpdateSearchCount q m) = True"
| "isNetworkWrite _ = False"

text \<open>
  The \<^verbatim>\<open>useState\<close> cells the resolvers write (lines 26 to 29), and the effects issued so
  far.
\<close>

record 'm app =
  errorMessage :: jsstring
  movieList :: "'m list"
  trendingMovies :: "'m list"
  isLoading :: bool
  effects :: "'m event list"

definition initial :: "'m app" where
  "initial = \<lparr>errorMessage = [], movieList = [], trendingMovies = [], isLoading = False,
     effects = []\<rparr>"

definition setErrorMessage :: "jsstring \<Rightarrow> 'm app \<Rightarrow> 'm app" where
  "setErrorMessage v s = s\<lparr>errorMessage := v\<rparr>"

definition setMovieList :: "'m list \<Rightarrow> 'm app \<Rightarrow> 'm app" where
  "setMovieList v s = s\<lparr>movieList := v\<rparr>"

definition setTrendingMovies :: "'m list \<Rightarrow> 'm app \<Rightarrow> 'm app" where
  "setTrendingMovies v s = s\<lparr>trendingMovies := v\<rparr>"

definition setIsLoading :: "bool \<Rightarrow> 'm app \<Rightarrow> 'm app" where
  "setIsLoading v s = s\<lparr>isLoading := v\<rparr>"

definition emit :: "'m event \<Rightarrow> 'm app \<Rightarrow> 'm app" where
  "emit e s = s\<lparr>effects := effects s @ [e]\<rparr>"

text \<open>What one invocation issued: the effects after it, without those before it.\<close>

definition issued :: "'m app \<Rightarrow> 'm app \<Rightarrow> 'm event list" where
  "issued s s' = drop (length (effects s)) (effects s')"

text \<open>
  What the "All Movies" section shows (lines 163 to 173): the loading line, else the
  error message when it is truthy, else the list.
\<close>

datatype 'm resolution = Loading | Failed jsstring | Success "'m list"

definition display :: "'m app \<Rightarrow> 'm resolution" where
  "display s =
     (if isLoading s then Loading
      else if errorMessage s \<noteq> [] then Failed (errorMessage s)
      else Success (movieList s))"

text \<open>
  A block ends normally or by an exception, in the state it has reached.
  \<open>try_catch\<close> runs the handler on an exception; \<open>try_finally\<close> runs its block either
  way and lets the exception through.
\<close>

type_synonym 'm outcome = "exn option \<times> 'm app"

definition try_catch :: "'m outcome \<Rightarrow> (exn \<Rightarrow> 'm app \<Rightarrow> 'm outcome) \<Rightarrow> 'm outcome" where
  "try_catch r handler = (case r of (None, s) \<Rightarrow> (None, s) | (Some e, s) \<Rightarrow> handler e s)"

definition try_finally :: "'m outcome \<Rightarrow> ('m app \<Rightarrow> 'm app) \<Rightarrow> 'm outcome" where
  "try_finally r block = (fst r, block (snd r))"

section \<open>The Search Resolver: \<^verbatim>\<open>fetchMovies\<close>\<close>

text \<open>Lines 40 to 42; \<open>None\<close> is the \<^verbatim>\<open>URIError\<close> of \<^verbatim>\<open>encodeURIComponent\<close>.\<close>

definition endpoint_for :: "jsstring \<Rightarrow> jsstring option" where
  "endpoint_for query =
     (if query \<noteq> [] then
        map_option (\<lambda>segment. API_BASE_URL @ ascii ''/search/movie?query='' @ segment)
          (encodeURIComponent query)
      else Some (API_BASE_URL @ ascii ''/discover/movie?sort_by=popularity.desc''))"

text \<open>\<^verbatim>\<open>data.Error || "Failed to fetch movies"\<close> (line 52).\<close>

definition embedded_message :: "'m tmdb_body \<Rightarrow> jsstring" where
  "embedded_message data =
     (case Error data of
        None \<Rightarrow> ascii ''Failed to fetch movies''
      | Some msg \<Rightarrow> if msg \<noteq> [] then msg else ascii ''Failed to fetch movies'')"

definition generic_message :: jsstring where
  "generic_message = ascii ''Error fetching movies. Please try again later.''"

text \<open>
  Lines 57 to 61, after a body without the error flag. \<^verbatim>\<open>data.results.length\<close> is read
  only when \<^verbatim>\<open>query\<close> is truthy, and throws when \<^verbatim>\<open>data.results\<close> is absent.
\<close>

definition fetchMovies_results ::
  "jsstring \<Rightarrow> 'm tmdb_body \<Rightarrow> call_outcome \<Rightarrow> 'm app \<Rightarrow> 'm outcome" where
  "fetchMovies_results query data counter s =
     (let s = setMovieList (case results data of None \<Rightarrow> [] | Some rs \<Rightarrow> rs) s in
      if query \<noteq> [] then
        (case results data of
           None \<Rightarrow> (Some TypeError, s)
         | Some rs \<Rightarrow>
             if length rs > 0 then
               (let s = emit (UpdateSearchCount query (rs ! 0)) s in
                case counter of
                  Resolves \<Rightarrow> (None, s)
                | Rejects \<Rightarrow> (Some AppwriteRejected, s))
             else (None, s))
      else (None, s))"

text \<open>The \<^verbatim>\<open>try\<close> block, lines 36 to 61.\<close>

definition fetchMovies_try ::
  "jsstring option \<Rightarrow> jsstring \<Rightarrow> 'm fetch_outcome \<Rightarrow> call_outcome \<Rightarrow> 'm app \<Rightarrow> 'm outcome" where
  "fetchMovies_try API_KEY query net counter s =
     (if \<not> configured API_KEY then (Some MissingApiKey, s)
      else
        (case endpoint_for query of
           None \<Rightarrow> (Some URIError, s)
         | Some endpoint \<Rightarrow>
             (let s = emit (Fetch endpoint) s in
              case net of
                FetchRejects \<Rightarrow> (Some FetchRejected, s)
              | Responds status body \<Rightarrow>
                  if \<not> response_ok status then (Some (HttpError status), s)
                  else
                    (case body of
                       JsonRejects \<Rightarrow> (Some JsonRejected, s)
                     | JsonNull \<Rightarrow> (Some TypeError, s)
                     | JsonObject data \<Rightarrow>
                         if Response data = Some (ascii ''False'') then
                           (None, setMovieList [] (setErrorMessage (embedded_message data) s))
                         else fetchMovies_results query data counter s))))"

text \<open>
  The whole function, lines 31 to 69. \<open>query\<close> is the value of the parameter: a call
  without argument (lines 115 and 133) binds it to the empty string.
\<close>

definition fetchMovies ::
  "jsstring option \<Rightarrow> jsstring \<Rightarrow> 'm fetch_outcome \<Rightarrow> call_outcome \<Rightarrow> 'm app \<Rightarrow> 'm outcome" where
  "fetchMovies API_KEY query net counter s =
     try_finally
       (try_catch
          (fetchMovies_try API_KEY query net counter (setErrorMessage [] (setIsLoading True s)))
          (\<lambda>error s. (None,
             setErrorMessage generic_message (emit (ConsoleError FetchingMovies error) s))))
       (setIsLoading False)"

section \<open>The Trending Resolver: \<^verbatim>\<open>fetchTrendingMovies\<close>\<close>

text \<open>
  Lines 81 to 100, the fallback to the provider. \<^verbatim>\<open>saveTrendingMovies\<close> (line 99) has no
  binding in the module: line 9 imports \<^verbatim>\<open>getTrendingMovies\<close> and
  \<^verbatim>\<open>updateSearchCount\<close> only, and the file declares no function of that name. Reading
  the identifier raises \<^verbatim>\<open>ReferenceError\<close> before \<^verbatim>\<open>slice(0, 20)\<close> is evaluated and
  before any call is made.
\<close>

definition fetchTrendingMovies_tmdb ::
  "jsstring option \<Rightarrow> 'm fetch_outcome \<Rightarrow> 'm app \<Rightarrow> 'm outcome" where
  "fetchTrendingMovies_tmdb API_KEY net s =
     (if \<not> configured API_KEY then (Some MissingApiKey, s)
      else
        (let s = emit (Fetch (API_BASE_URL @ ascii ''/trending/movie/week'')) s in
         case net of
           FetchRejects \<Rightarrow> (Some FetchRejected, s)
         | Responds status body \<Rightarrow>
             if \<not> response_ok status then (Some (HttpError status), s)
             else
               (case body of
                  JsonRejects \<Rightarrow> (Some JsonRejected, s)
                | JsonNull \<Rightarrow> (Some TypeError, s)
                | JsonObject data \<Rightarrow>
                    (let trendingResults = (case results data of None \<Rightarrow> [] | Some rs \<Rightarrow> rs);
                         s = setTrendingMovies trendingResults s
                     in if length trendingResults > 0 then (Some ReferenceError, s)
                        else (None, s)))))"

text \<open>The outer \<^verbatim>\<open>try\<close> block, lines 74 to 100.\<close>

definition fetchTrendingMovies_try ::
  "jsstring option \<Rightarrow> 'm cache_outcome \<Rightarrow> 'm fetch_outcome \<Rightarrow> 'm app \<Rightarrow> 'm outcome" where
  "fetchTrendingMovies_try API_KEY cache net s =
     (let s = emit GetTrendingMovies s in
      case cache of
        CacheRejects \<Rightarrow> (Some AppwriteRejected, s)
      | CacheReturns None \<Rightarrow> fetchTrendingMovies_tmdb API_KEY net s
      | CacheReturns (Some appwriteTrending) \<Rightarrow>
          if length appwriteTrending > 0 then (None, setTrendingMovies appwriteTrending s)
          else fetchTrendingMovies_tmdb API_KEY net s)"

text \<open>The \<^verbatim>\<open>catch\<close> block, lines 102 to 111, with its own \<^verbatim>\<open>try\<close>.\<close>

definition fetchTrendingMovies_catch :: "'m cache_outcome \<Rightarrow> exn \<Rightarrow> 'm app \<Rightarrow> 'm outcome" where
  "fetchTrendingMovies_catch fallback error s =
     try_catch
       (let s = emit GetTrendingMovies (emit (ConsoleError FetchingTrending error) s) in
        case fallback of
          CacheRejects \<Rightarrow> (Some AppwriteRejected, s)
        | CacheReturns fallbackTrending \<Rightarrow>
            (None, setTrendingMovies (case fallbackTrending of None \<Rightarrow> [] | Some l \<Rightarrow> l) s))
       (\<lambda>appwriteError s. (None, emit (ConsoleError AppwriteFallback appwriteError) s))"

text \<open>
  The whole function, lines 71 to 112. \<open>cache\<close> is how the first read of the store
  ends and \<open>fallback\<close> how the second one does, when it is made.
\<close>

definition fetchTrendingMovies ::
  "jsstring option \<Rightarrow> 'm cache_outcome \<Rightarrow> 'm fetch_outcome \<Rightarrow> 'm cache_outcome \<Rightarrow> 'm app
     \<Rightarrow> 'm outcome" where
  "fetchTrendingMovies API_KEY cache net fallback s =
     try_catch (fetchTrendingMovies_try API_KEY cache net s) (fetchTrendingMovies_catch fallback)"

section \<open>Classifying the inputs of the Trending Resolver\<close>

text \<open>A read of the store that fails, or returns nothing or an empty list.\<close>

definition cacheEmpty :: "'m cache_outcome \<Rightarrow> bool" where
  "cacheEmpty c =
     (case c of
        CacheRejects \<Rightarrow> True
      | CacheReturns None \<Rightarrow> True
      | CacheReturns (Some l) \<Rightarrow> l = [])"

text \<open>
  What the live trending feed delivers: \<open>None\<close> when the credential is missing, the
  transport fails or the body cannot be read, else the results of the body (the empty
  list when the body has none).
\<close>

definition liveResults :: "jsstring option \<Rightarrow> 'm fetch_outcome \<Rightarrow> 'm list option" where
  "liveResults API_KEY net =
     (if \<not> configured API_KEY then None
      else
        (case net of
           FetchRejects \<Rightarrow> None
         | Responds status body \<Rightarrow>
             if \<not> response_ok status then None
             else
               (case body of
                  JsonRejects \<Rightarrow> None
                | JsonNull \<Rightarrow> None
                | JsonObject data \<Rightarrow> Some (case results data of None \<Rightarrow> [] | Some rs \<Rightarrow> rs))))"

section \<open>Classifying the provider's answer to a search\<close>

text \<open>
  A transport failure is a rejected \<^verbatim>\<open>fetch\<close> or a status outside 200 to 299; a
  semantic failure is a 2xx body that carries the error flag
  \<^verbatim>\<open>Response === "False"\<close>.
\<close>

definition transportFailure :: "'m fetch_outcome \<Rightarrow> bool" where
  "transportFailure net =
     (case net of FetchRejects \<Rightarrow> True | Responds status body \<Rightarrow> \<not> response_ok status)"

definition semanticFailure :: "'m fetch_outcome \<Rightarrow> bool" where
  "semanticFailure net =
     (case net of
        FetchRejects \<Rightarrow> False
      | Responds status body \<Rightarrow>
          (case body of
             JsonRejects \<Rightarrow> False
           | JsonNull \<Rightarrow> False
           | JsonObject data \<Rightarrow> response_ok status \<and> Response data = Some (ascii ''False'')))"

section \<open>Percent-encoding: the decoder inverts the encoder\<close>

lemma parseEscape_shorter: "parseEscape cs = Some (b, rest) \<Longrightarrow> length rest < length cs"
  by (induction cs rule: parseEscape.induct) (auto split: if_splits option.splits)

lemma continuationBytes_shorter:
  "continuationBytes n cs = Some (bs, rest) \<Longrightarrow> length rest \<le> length cs"
proof (induction n arbitrary: cs bs rest)
  case 0
  then show ?case by simp
next
  case (Suc n)
  then show ?case
    by (fastforce split: option.splits dest: parseEscape_shorter)
qed

termination decodeURIComponent
proof (relation "measure length", goal_cases)
  case 1
  show ?case by simp
next
  case (2 c cs)
  then show ?case by simp
next
  case (3 c cs x2 b rest n)
  then show ?case using parseEscape_shorter[of "c # cs" b rest] by simp
next
  case (4 c cs x2 b rest n x2a bs rest')
  then show ?case
    using parseEscape_shorter[of "c # cs" b rest] continuationBytes_shorter[of "n - 1" rest bs rest']
    by simp
qed


lemma unat_of_nat16: "n < 65536 \<Longrightarrow> unat (of_nat n :: 16 word) = n"
  by (simp add: unat_of_nat)

lemma unat_hexDigit:
  assumes "d < 16"
  shows "unat (hexDigit d) = (if d < 10 then 0x30 + d else 0x37 + d)"
proof (cases "d < 10")
  case True
  have "unat (of_nat (0x30 + d) :: 16 word) = 0x30 + d"
    by (rule unat_of_nat16) (use True in simp)
  then show ?thesis using True by (simp only: hexDigit_def if_True)
next
  case False
  have "unat (of_nat (0x41 + (d - 10)) :: 16 word) = 0x41 + (d - 10)"
    by (rule unat_of_nat16) (use assms in simp)
  moreover have "0x41 + (d - 10) = 0x37 + d" using False by simp
  ultimately show ?thesis using False by (simp only: hexDigit_def if_False)
qed

lemma hexValue_hexDigit:
  assumes "d < 16"
  shows "hexValue (hexDigit d) = Some d"
proof -
  define c where "c = hexDigit d"
  have u: "unat c = (if d < 10 then 0x30 + d else 0x37 + d)"
    unfolding c_def by (rule unat_hexDigit[OF assms])
  have "hexValue c = Some d"
    using u assms by (auto simp: hexValue_def word_le_nat_alt split: if_splits)
  then show ?thesis by (simp only: c_def)
qed

lemma append_single: "(@) [x] = (#) x"
  by (simp add: fun_eq_iff)

lemma parseEscape_escape: "b < 256 \<Longrightarrow> parseEscape (escape b @ rest) = Some (b, rest)"
  by (simp add: escape_def hexValue_hexDigit)

lemma decode_escape:
  "b < 256 \<Longrightarrow> decodeURIComponent (escape b @ rest) =
     (let n = leadingOnes b in
      if n = 0 then map_option ((#) (of_nat b)) (decodeURIComponent rest)
      else if n = 1 \<or> n > 4 then None
      else
        (case continuationBytes (n - 1) rest of
           None \<Rightarrow> None
         | Some (bs, rest') \<Rightarrow>
             (case utf8Decode (b # bs) of
                None \<Rightarrow> None
              | Some cp \<Rightarrow> map_option ((@) (utf16 cp)) (decodeURIComponent rest'))))"
proof -
  assume b: "b < 256"
  have e: "escape b @ rest = 0x25 # hexDigit (b div 16) # hexDigit (b mod 16) # rest"
    by (simp add: escape_def)
  have p: "parseEscape (0x25 # hexDigit (b div 16) # hexDigit (b mod 16) # rest) = Some (b, rest)"
    using parseEscape_escape[OF b, of rest] by (simp add: escape_def)
  show ?thesis unfolding e
    by (subst decodeURIComponent.simps) (simp only: p option.case prod.case simp_thms if_False)
qed

lemma continuation_escape:
  "b < 256 \<Longrightarrow> continuationBytes (Suc n) (escape b @ rest) =
     (case continuationBytes n rest of None \<Rightarrow> None | Some (bs, rest') \<Rightarrow> Some (b # bs, rest'))"
  by (simp add: parseEscape_escape)


lemma split3: "(cp::nat) div 4096 * 4096 + cp div 64 mod 64 * 64 + cp mod 64 = cp"
proof -
  define q where "q = cp div 64"
  define a where "a = q div 64"
  define b where "b = q mod 64"
  define r where "r = cp mod 64"
  have c: "cp div 4096 = a" by (simp add: a_def q_def div_mult2_eq)
  have 1: "q = 64 * a + b" by (simp add: a_def b_def)
  have 2: "cp = 64 * q + r" by (simp add: q_def r_def)
  have "a * 4096 + b * 64 + r = cp" using 1 2 by linarith
  then show ?thesis by (simp only: c a_def b_def q_def r_def)
qed
lemma split4: "(cp::nat) div 262144 * 262144 + cp div 4096 mod 64 * 4096 + cp div 64 mod 64 * 64 + cp mod 64 = cp"
proof -
  define q where "q = cp div 4096"
  define a where "a = q div 64"
  define b where "b = q mod 64"
  have c: "cp div 262144 = a" by (simp add: a_def q_def div_mult2_eq)
  have 1: "q = 64 * a + b" by (simp add: a_def b_def)
  have "a * 262144 + b * 4096 = q * 4096" using 1 by linarith
  then have "cp div 262144 * 262144 + cp div 4096 mod 64 * 4096 = cp div 4096 * 4096"
    by (simp only: c a_def b_def q_def)
  then show ?thesis using split3[of cp] by linarith
qed

lemma continuationBytes_numeral:
  "continuationBytes 2 cs = continuationBytes (Suc (Suc 0)) cs"
  "continuationBytes 3 cs = continuationBytes (Suc (Suc (Suc 0))) cs"
  by (simp_all only: numeral_2_eq_2 numeral_3_eq_3)

lemma decode_utf8:
  assumes "cp < 0x110000" and "\<not> (0xD800 \<le> cp \<and> cp \<le> 0xDFFF)"
  shows "decodeURIComponent (concat (map escape (utf8 cp)) @ rest) =
           map_option ((@) (utf16 cp)) (decodeURIComponent rest)"
proof -
  consider (one) "cp < 0x80" | (two) "0x80 \<le> cp" "cp < 0x800"
    | (three) "0x800 \<le> cp" "cp < 0x10000" | (four) "0x10000 \<le> cp"
    by linarith
  then show ?thesis
  proof cases
    case one
    then show ?thesis
      by (simp add: utf8_def decode_escape leadingOnes_def utf16_def append_single)
  next
    case two
    define b0 where "b0 = 0xC0 + cp div 0x40"
    define b1 where "b1 = 0x80 + cp mod 0x40"
    have u: "utf8 cp = [b0, b1]" using two by (simp add: utf8_def b0_def b1_def)
    have r: "b0 < 256" "b1 < 256" "leadingOnes b0 = 2" "isContinuation b1"
      "(b0 - 0xC0) * 0x40 + (b1 - 0x80) = cp"
      using two by (auto simp: b0_def b1_def leadingOnes_def isContinuation_def)
    show ?thesis using two
      by (simp add: u decode_escape r continuationBytes_numeral parseEscape_escape)
  next
    case three
    define b0 where "b0 = 0xE0 + cp div 0x1000"
    define b1 where "b1 = 0x80 + (cp div 0x40) mod 0x40"
    define b2 where "b2 = 0x80 + cp mod 0x40"
    have u: "utf8 cp = [b0, b1, b2]" using three by (simp add: utf8_def b0_def b1_def b2_def)
    have r: "b0 < 256" "b1 < 256" "b2 < 256" "leadingOnes b0 = 3" "isContinuation b1"
      "isContinuation b2" "(b0 - 0xE0) * 0x1000 + (b1 - 0x80) * 0x40 + (b2 - 0x80) = cp"
      using three by (auto simp: b0_def b1_def b2_def leadingOnes_def isContinuation_def split3)
    show ?thesis using three assms
      by (simp add: u decode_escape r continuationBytes_numeral parseEscape_escape)
  next
    case four
    define b0 where "b0 = 0xF0 + cp div 0x40000"
    define b1 where "b1 = 0x80 + (cp div 0x1000) mod 0x40"
    define b2 where "b2 = 0x80 + (cp div 0x40) mod 0x40"
    define b3 where "b3 = 0x80 + cp mod 0x40"
    have u: "utf8 cp = [b0, b1, b2, b3]"
      using four by (simp add: utf8_def b0_def b1_def b2_def b3_def)
    have r: "b0 < 256" "b1 < 256" "b2 < 256" "b3 < 256" "leadingOnes b0 = 4"
      "isContinuation b1" "isContinuation b2" "isContinuation b3"
      "(b0 - 0xF0) * 0x40000 + (b1 - 0x80) * 0x1000 + (b2 - 0x80) * 0x40 + (b3 - 0x80) = cp"
      using four assms by (auto simp: b0_def b1_def b2_def b3_def leadingOnes_def isContinuation_def split4)
    show ?thesis using four assms
      by (simp add: u decode_escape r continuationBytes_numeral parseEscape_escape)
  qed
qed


lemma uriUnreserved_not_percent: "uriUnreserved c \<Longrightarrow> c \<noteq> 0x25"
  by (auto simp: uriUnreserved_def)

lemma utf16_bmp: "utf16 (unat (c :: 16 word)) = [c]"
proof -
  have "unat c < 0x10000" using unsigned_less[of c, where 'a=nat] by simp
  then show ?thesis by (simp add: utf16_def)
qed

lemma surrogatePair_range:
  assumes "isLeadSurrogate c" and "isTrailSurrogate d"
  shows "0x10000 \<le> surrogatePair c d" and "surrogatePair c d < 0x110000"
  using assms
  by (auto simp: isLeadSurrogate_def isTrailSurrogate_def surrogatePair_def word_le_nat_alt)

lemma utf16_surrogatePair:
  assumes "isLeadSurrogate c" and "isTrailSurrogate d"
  shows "utf16 (surrogatePair c d) = [c, d]"
proof -
  define h where "h = unat c - 0xD800"
  define l where "l = unat d - 0xDC00"
  have c: "0xD800 \<le> unat c" "unat c \<le> 0xDBFF" and d: "0xDC00 \<le> unat d" "unat d \<le> 0xDFFF"
    using assms by (auto simp: isLeadSurrogate_def isTrailSurrogate_def word_le_nat_alt)
  have l: "l < 0x400" using d by (simp add: l_def)
  have sp: "surrogatePair c d - 0x10000 = h * 0x400 + l"
    by (simp add: surrogatePair_def h_def l_def)
  have dv: "(h * 0x400 + l) div 0x400 = h" using l by simp
  have md: "(h * 0x400 + l) mod 0x400 = l" using l by simp
  have hi: "0xD800 + h = unat c" using c by (simp add: h_def)
  have lo: "0xDC00 + l = unat d" using d by (simp add: l_def)
  have "\<not> surrogatePair c d < 0x10000" using surrogatePair_range(1)[OF assms] by simp
  then have "utf16 (surrogatePair c d) = [of_nat (unat c), of_nat (unat d)]"
    unfolding utf16_def by (simp only: if_False sp dv md hi lo)
  then show ?thesis by simp
qed

lemma encode_decode:
  "encodeURIComponent q = Some e \<Longrightarrow> decodeURIComponent e = Some q"
proof (induction q arbitrary: e rule: encodeURIComponent.induct)
  case 1
  then show ?case by simp
next
  case (2 c cs)
  show ?case
  proof (cases "uriUnreserved c")
    case True
    with "2.prems" obtain e' where e': "encodeURIComponent cs = Some e'" "e = c # e'"
      by auto
    from "2.IH"(1)[OF True e'(1)] have "decodeURIComponent e' = Some cs" .
    then show ?thesis using uriUnreserved_not_percent[OF True] e'(2) by simp
  next
    case nu: False
    show ?thesis
    proof (cases "isLeadSurrogate c")
      case True
      with nu "2.prems" obtain d ds e' where
        cs: "cs = d # ds" and d: "isTrailSurrogate d"
        and e': "encodeURIComponent ds = Some e'"
        and e: "e = concat (map escape (utf8 (surrogatePair c d))) @ e'"
        by (auto split: list.splits if_splits)
      from "2.IH"(2)[OF nu True cs d e'] have ih: "decodeURIComponent e' = Some ds" .
      have "\<not> (0xD800 \<le> surrogatePair c d \<and> surrogatePair c d \<le> 0xDFFF)"
        using surrogatePair_range(1)[OF True d] by simp
      then show ?thesis
        using decode_utf8[OF surrogatePair_range(2)[OF True d], of e'] ih
        by (simp add: e cs utf16_surrogatePair[OF True d])
    next
      case nl: False
      with nu "2.prems" obtain e' where nt: "\<not> isTrailSurrogate c"
        and e': "encodeURIComponent cs = Some e'"
        and e: "e = concat (map escape (utf8 (unat c))) @ e'"
        by (auto split: if_splits)
      from "2.IH"(3)[OF nu nl nt e'] have ih: "decodeURIComponent e' = Some cs" .
      have r: "unat c < 0x110000" using unsigned_less[of c, where 'a=nat] by simp
      have s: "\<not> (0xD800 \<le> unat c \<and> unat c \<le> 0xDFFF)"
        using nl nt by (auto simp: isLeadSurrogate_def isTrailSurrogate_def word_le_nat_alt)
      show ?thesis using decode_utf8[OF r s, of e'] ih by (simp add: e utf16_bmp)
    qed
  qed
qed


lemma unreserved_not_surrogate:
  "uriUnreserved c \<Longrightarrow> \<not> isLeadSurrogate c \<and> \<not> isTrailSurrogate c"
  by (auto simp: uriUnreserved_def isLeadSurrogate_def isTrailSurrogate_def word_le_nat_alt)

lemma encode_defined_iff: "encodeURIComponent q \<noteq> None \<longleftrightarrow> isWellFormed q"
proof (induction q rule: encodeURIComponent.induct)
  case 1
  show ?case by simp
next
  case (2 c cs)
  show ?case
  proof (cases "uriUnreserved c")
    case True
    then show ?thesis using "2.IH"(1) unreserved_not_surrogate[OF True] by simp
  next
    case nu: False
    show ?thesis
    proof (cases "isLeadSurrogate c")
      case True
      show ?thesis
      proof (cases cs)
        case Nil
        then show ?thesis using nu True by simp
      next
        case (Cons d ds)
        then show ?thesis using nu True "2.IH"(2)[OF nu True Cons] by simp
      qed
    next
      case False
      then show ?thesis using nu "2.IH"(3)[OF nu False] by simp
    qed
  qed
qed

lemma hexDigit_unreserved: "d < 16 \<Longrightarrow> uriUnreserved (hexDigit d)"
  using unat_hexDigit[of d] by (auto simp: uriUnreserved_def word_le_nat_alt)

lemma utf8_octets: "cp < 0x110000 \<Longrightarrow> b \<in> set (utf8 cp) \<Longrightarrow> b < 256"
  by (auto simp: utf8_def split: if_splits)

lemma escape_safe: "b < 256 \<Longrightarrow> c \<in> set (escape b) \<Longrightarrow> urlSafe c"
  by (auto simp: escape_def urlSafe_def hexDigit_unreserved)

lemma escapes_safe:
  assumes "cp < 0x110000" and "c \<in> set (concat (map escape (utf8 cp)))"
  shows "urlSafe c"
  using assms by (auto dest: utf8_octets escape_safe)

lemma encode_safe: "encodeURIComponent q = Some e \<Longrightarrow> c \<in> set e \<Longrightarrow> urlSafe c"
proof (induction q arbitrary: e rule: encodeURIComponent.induct)
  case 1
  then show ?case by simp
next
  case (2 c' cs)
  show ?case
  proof (cases "uriUnreserved c'")
    case True
    with "2.prems" "2.IH"(1)[OF True] show ?thesis by (auto simp: urlSafe_def)
  next
    case nu: False
    show ?thesis
    proof (cases "isLeadSurrogate c'")
      case True
      with nu "2.prems" obtain d ds e' where
        cs: "cs = d # ds" and d: "isTrailSurrogate d"
        and e': "encodeURIComponent ds = Some e'"
        and e: "e = concat (map escape (utf8 (surrogatePair c' d))) @ e'"
        by (auto split: list.splits if_splits)
      show ?thesis
        using "2.prems"(2) "2.IH"(2)[OF nu True cs d e']
          escapes_safe[OF surrogatePair_range(2)[OF True d]]
        unfolding e by auto
    next
      case nl: False
      with nu "2.prems" obtain e' where nt: "\<not> isTrailSurrogate c'"
        and e': "encodeURIComponent cs = Some e'"
        and e: "e = concat (map escape (utf8 (unat c'))) @ e'"
        by (auto split: if_splits)
      have r: "unat c' < 0x110000" using unsigned_less[of c', where 'a=nat] by simp
      show ?thesis
        using "2.prems"(2) "2.IH"(3)[OF nu nl nt e'] escapes_safe[OF r]
        unfolding e by auto
    qed
  qed
qed

text \<open>The encoder on a query with reserved characters.\<close>

lemma encodeURIComponent_example:
  "encodeURIComponent (ascii ''a&b c'') = Some (ascii ''a%26b%20c'')"
  by (simp add: ascii_def uriUnreserved_def isLeadSurrogate_def isTrailSurrogate_def utf8_def
      escape_def hexDigit_def)

section \<open>The paths of \<^verbatim>\<open>fetchMovies\<close>\<close>

lemma generic_message_nonempty: "generic_message \<noteq> []"
  by (simp add: generic_message_def ascii_def)

lemma embedded_message_nonempty: "embedded_message data \<noteq> []"
  by (simp add: embedded_message_def ascii_def split: option.splits)

lemma endpoint_for_empty:
  "endpoint_for [] = Some (API_BASE_URL @ ascii ''/discover/movie?sort_by=popularity.desc'')"
  by (simp add: endpoint_for_def)

lemma endpoint_for_wellformed:
  assumes "query \<noteq> []" and "isWellFormed query"
  obtains segment where "encodeURIComponent query = Some segment"
    and "endpoint_for query = Some (API_BASE_URL @ ascii ''/search/movie?query='' @ segment)"
proof -
  from assms(2) obtain segment where "encodeURIComponent query = Some segment"
    using encode_defined_iff[of query] by auto
  then show ?thesis using assms(1) that by (simp add: endpoint_for_def)
qed

lemma endpoint_for_defined: "isWellFormed query \<Longrightarrow> \<exists>url. endpoint_for query = Some url"
  by (cases "query = []") (auto simp: endpoint_for_empty elim: endpoint_for_wellformed)

lemma endpoint_for_illformed: "\<not> isWellFormed query \<Longrightarrow> endpoint_for query = None"
  using encode_defined_iff[of query] by (cases "query = []") (auto simp: endpoint_for_def)

lemmas app_simps =
  setErrorMessage_def setMovieList_def setTrendingMovies_def setIsLoading_def emit_def
  try_catch_def try_finally_def issued_def

lemma fetchMovies_unconfigured:
  "\<not> configured API_KEY \<Longrightarrow>
   fetchMovies API_KEY query net counter s =
     (None, s\<lparr>errorMessage := generic_message, isLoading := False,
               effects := effects s @ [ConsoleError FetchingMovies MissingApiKey]\<rparr>)"
  by (simp add: fetchMovies_def fetchMovies_try_def app_simps)

lemma fetchMovies_illformed:
  "configured API_KEY \<Longrightarrow> \<not> isWellFormed query \<Longrightarrow>
   fetchMovies API_KEY query net counter s =
     (None, s\<lparr>errorMessage := generic_message, isLoading := False,
               effects := effects s @ [ConsoleError FetchingMovies URIError]\<rparr>)"
  by (simp add: fetchMovies_def fetchMovies_try_def app_simps endpoint_for_illformed)

lemma fetchMovies_rejected:
  "configured API_KEY \<Longrightarrow> endpoint_for query = Some url \<Longrightarrow>
   fetchMovies API_KEY query FetchRejects counter s =
     (None, s\<lparr>errorMessage := generic_message, isLoading := False,
               effects := effects s @ [Fetch url, ConsoleError FetchingMovies FetchRejected]\<rparr>)"
  by (simp add: fetchMovies_def fetchMovies_try_def app_simps)

lemma fetchMovies_http_error:
  "configured API_KEY \<Longrightarrow> endpoint_for query = Some url \<Longrightarrow> \<not> response_ok status \<Longrightarrow>
   fetchMovies API_KEY query (Responds status body) counter s =
     (None, s\<lparr>errorMessage := generic_message, isLoading := False,
               effects := effects s @ [Fetch url, ConsoleError FetchingMovies (HttpError status)]\<rparr>)"
  by (simp add: fetchMovies_def fetchMovies_try_def app_simps)

lemma fetchMovies_json_rejected:
  "configured API_KEY \<Longrightarrow> endpoint_for query = Some url \<Longrightarrow> response_ok status \<Longrightarrow>
   fetchMovies API_KEY query (Responds status JsonRejects) counter s =
     (None, s\<lparr>errorMessage := generic_message, isLoading := False,
               effects := effects s @ [Fetch url, ConsoleError FetchingMovies JsonRejected]\<rparr>)"
  by (simp add: fetchMovies_def fetchMovies_try_def app_simps)

lemma fetchMovies_json_null:
  "configured API_KEY \<Longrightarrow> endpoint_for query = Some url \<Longrightarrow> response_ok status \<Longrightarrow>
   fetchMovies API_KEY query (Responds status JsonNull) counter s =
     (None, s\<lparr>errorMessage := generic_message, isLoading := False,
               effects := effects s @ [Fetch url, ConsoleError FetchingMovies TypeError]\<rparr>)"
  by (simp add: fetchMovies_def fetchMovies_try_def app_simps)

lemma fetchMovies_flagged:
  "configured API_KEY \<Longrightarrow> endpoint_for query = Some url \<Longrightarrow> response_ok status \<Longrightarrow>
   Response data = Some (ascii ''False'') \<Longrightarrow>
   fetchMovies API_KEY query (Responds status (JsonObject data)) counter s =
     (None, s\<lparr>errorMessage := embedded_message data, movieList := [], isLoading := False,
               effects := effects s @ [Fetch url]\<rparr>)"
  by (simp add: fetchMovies_def fetchMovies_try_def app_simps)

lemma fetchMovies_unflagged:
  "configured API_KEY \<Longrightarrow> endpoint_for query = Some url \<Longrightarrow> response_ok status \<Longrightarrow>
   Response data \<noteq> Some (ascii ''False'') \<Longrightarrow>
   fetchMovies API_KEY query (Responds status (JsonObject data)) counter s =
     (case results data of
        None \<Rightarrow>
          if query \<noteq> [] then
            (None, s\<lparr>errorMessage := generic_message, movieList := [], isLoading := False,
               effects := effects s @ [Fetch url, ConsoleError FetchingMovies TypeError]\<rparr>)
          else (None, s\<lparr>errorMessage := [], movieList := [], isLoading := False,
               effects := effects s @ [Fetch url]\<rparr>)
      | Some [] \<Rightarrow>
          (None, s\<lparr>errorMessage := [], movieList := [], isLoading := False,
               effects := effects s @ [Fetch url]\<rparr>)
      | Some (m # ms) \<Rightarrow>
          if query = [] then
            (None, s\<lparr>errorMessage := [], movieList := m # ms, isLoading := False,
               effects := effects s @ [Fetch url]\<rparr>)
          else
            (case counter of
               Resolves \<Rightarrow>
                 (None, s\<lparr>errorMessage := [], movieList := m # ms, isLoading := False,
                    effects := effects s @ [Fetch url, UpdateSearchCount query m]\<rparr>)
             | Rejects \<Rightarrow>
                 (None, s\<lparr>errorMessage := generic_message, movieList := m # ms,
                    isLoading := False,
                    effects := effects s @ [Fetch url, UpdateSearchCount query m,
                      ConsoleError FetchingMovies AppwriteRejected]\<rparr>)))"
  by (simp add: fetchMovies_def fetchMovies_try_def fetchMovies_results_def app_simps
      split: option.splits list.splits call_outcome.splits)

lemma issued_append: "effects s' = effects s @ evs \<Longrightarrow> issued s s' = evs"
  by (simp add: issued_def)

lemma fetchMovies_cases:
  obtains (unconfigured) "\<not> configured API_KEY"
  | (illformed) "configured API_KEY" "\<not> isWellFormed query"
  | (rejected) url where "configured API_KEY" "endpoint_for query = Some url" "isWellFormed query"
      "net = FetchRejects"
  | (http_error) url status body where "configured API_KEY" "endpoint_for query = Some url"
      "isWellFormed query" "net = Responds status body" "\<not> response_ok status"
  | (json_rejected) url status where "configured API_KEY" "endpoint_for query = Some url"
      "isWellFormed query" "net = Responds status JsonRejects" "response_ok status"
  | (json_null) url status where "configured API_KEY" "endpoint_for query = Some url"
      "isWellFormed query" "net = Responds status JsonNull" "response_ok status"
  | (flagged) url status data where "configured API_KEY" "endpoint_for query = Some url"
      "isWellFormed query" "net = Responds status (JsonObject data)" "response_ok status"
      "Response data = Some (ascii ''False'')"
  | (unflagged) url status data where "configured API_KEY" "endpoint_for query = Some url"
      "isWellFormed query" "net = Responds status (JsonObject data)" "response_ok status"
      "Response data \<noteq> Some (ascii ''False'')"
proof (cases "configured API_KEY")
  case False
  then show ?thesis by (rule unconfigured)
next
  case c: True
  show ?thesis
  proof (cases "isWellFormed query")
    case False
    with c show ?thesis by (rule illformed)
  next
    case w: True
    then obtain url where u: "endpoint_for query = Some url"
      using endpoint_for_defined by blast
    show ?thesis
    proof (cases net)
      case FetchRejects
      with c u w show ?thesis by (rule rejected)
    next
      case (Responds status body)
      show ?thesis
      proof (cases "response_ok status")
        case False
        with c u w Responds show ?thesis by (rule http_error)
      next
        case ok: True
        show ?thesis
        proof (cases body)
          case JsonRejects
          with c u w Responds ok show ?thesis using json_rejected by blast
        next
          case JsonNull
          with c u w Responds ok show ?thesis using json_null by blast
        next
          case (JsonObject data)
          show ?thesis
          proof (cases "Response data = Some (ascii ''False'')")
            case True
            with c u w Responds ok JsonObject show ?thesis using flagged by blast
          next
            case False
            with c u w Responds ok JsonObject show ?thesis using unflagged by blast
          qed
        qed
      qed
    qed
  qed
qed

lemma fetchMovies_no_exception: "fst (fetchMovies API_KEY query net counter s) = None"
  by (rule fetchMovies_cases[where API_KEY=API_KEY and query=query and net=net])
    (simp_all add: fetchMovies_unconfigured fetchMovies_illformed fetchMovies_rejected
      fetchMovies_http_error fetchMovies_json_rejected fetchMovies_json_null fetchMovies_flagged
      fetchMovies_unflagged split: option.splits list.splits call_outcome.splits)

lemma fetchMovies_not_loading: "isLoading (snd (fetchMovies API_KEY query net counter s)) = False"
  by (rule fetchMovies_cases[where API_KEY=API_KEY and query=query and net=net])
    (simp_all add: fetchMovies_unconfigured fetchMovies_illformed fetchMovies_rejected
      fetchMovies_http_error fetchMovies_json_rejected fetchMovies_json_null fetchMovies_flagged
      fetchMovies_unflagged split: option.splits list.splits call_outcome.splits)

lemma fetchMovies_reads:
  "filter isNetworkRead (issued s (snd (fetchMovies API_KEY query net counter s))) =
     (if configured API_KEY then
        (case endpoint_for query of None \<Rightarrow> [] | Some url \<Rightarrow> [Fetch url])
      else [])"
  by (rule fetchMovies_cases[where API_KEY=API_KEY and query=query and net=net])
    (simp_all add: fetchMovies_unconfigured fetchMovies_illformed fetchMovies_rejected
      fetchMovies_http_error fetchMovies_json_rejected fetchMovies_json_null fetchMovies_flagged
      fetchMovies_unflagged endpoint_for_illformed issued_def
      split: option.splits list.splits call_outcome.splits)

lemma fetchMovies_writes:
  "filter isNetworkWrite (issued s (snd (fetchMovies API_KEY query net counter s))) = [] \<or>
   (\<exists>status data m ms. net = Responds status (JsonObject data) \<and> results data = Some (m # ms)
      \<and> query \<noteq> [] \<and> configured API_KEY \<and> isWellFormed query \<and> response_ok status
      \<and> Response data \<noteq> Some (ascii ''False'')
      \<and> filter isNetworkWrite (issued s (snd (fetchMovies API_KEY query net counter s)))
          = [UpdateSearchCount query m])"
  by (rule fetchMovies_cases[where API_KEY=API_KEY and query=query and net=net])
    (simp_all add: fetchMovies_unconfigured fetchMovies_illformed fetchMovies_rejected
      fetchMovies_http_error fetchMovies_json_rejected fetchMovies_json_null fetchMovies_flagged
      fetchMovies_unflagged issued_def
      split: option.splits list.splits call_outcome.splits)

text \<open>
  What every invocation leaves behind, and what a configuration, transport or semantic
  failure does to the movie list.
\<close>

lemma fetchMovies_failure_frame:
  "fst (fetchMovies API_KEY query net counter s) = None
   \<and> isLoading (snd (fetchMovies API_KEY query net counter s)) = False
   \<and> (\<not> configured API_KEY \<or> transportFailure net
      \<longrightarrow> movieList (snd (fetchMovies API_KEY query net counter s)) = movieList s
          \<and> trendingMovies (snd (fetchMovies API_KEY query net counter s)) = trendingMovies s
          \<and> errorMessage (snd (fetchMovies API_KEY query net counter s)) = generic_message)
   \<and> (configured API_KEY \<and> isWellFormed query \<and> semanticFailure net
      \<longrightarrow> movieList (snd (fetchMovies API_KEY query net counter s)) = []
          \<and> errorMessage (snd (fetchMovies API_KEY query net counter s)) \<noteq> [])"
proof (intro conjI)
  show "fst (fetchMovies API_KEY query net counter s) = None"
    by (rule fetchMovies_no_exception)
  show "isLoading (snd (fetchMovies API_KEY query net counter s)) = False"
    by (rule fetchMovies_not_loading)
  show "\<not> configured API_KEY \<or> transportFailure net
      \<longrightarrow> movieList (snd (fetchMovies API_KEY query net counter s)) = movieList s
          \<and> trendingMovies (snd (fetchMovies API_KEY query net counter s)) = trendingMovies s
          \<and> errorMessage (snd (fetchMovies API_KEY query net counter s)) = generic_message"
    by (rule fetchMovies_cases[where API_KEY=API_KEY and query=query and net=net])
      (simp_all add: fetchMovies_unconfigured fetchMovies_illformed fetchMovies_rejected
        fetchMovies_http_error transportFailure_def)
  show "configured API_KEY \<and> isWellFormed query \<and> semanticFailure net
      \<longrightarrow> movieList (snd (fetchMovies API_KEY query net counter s)) = []
          \<and> errorMessage (snd (fetchMovies API_KEY query net counter s)) \<noteq> []"
    by (rule fetchMovies_cases[where API_KEY=API_KEY and query=query and net=net])
      (simp_all add: fetchMovies_flagged semanticFailure_def embedded_message_nonempty
        split: json_outcome.splits)
qed

lemma endpoint_for_batman:
  "endpoint_for (ascii ''batman'') = Some (API_BASE_URL @ ascii ''/search/movie?query=batman'')"
  by (simp add: endpoint_for_def ascii_def uriUnreserved_def)

section \<open>The paths of \<^verbatim>\<open>fetchTrendingMovies\<close>\<close>

lemma fetchTrendingMovies_cached:
  "l \<noteq> [] \<Longrightarrow>
   fetchTrendingMovies API_KEY (CacheReturns (Some l)) net fallback s =
     (None, s\<lparr>trendingMovies := l, effects := effects s @ [GetTrendingMovies]\<rparr>)"
  by (simp add: fetchTrendingMovies_def fetchTrendingMovies_try_def app_simps)

lemma fetchTrendingMovies_no_exception:
  "fst (fetchTrendingMovies API_KEY cache net fallback s) = None"
  by (simp add: fetchTrendingMovies_def fetchTrendingMovies_try_def fetchTrendingMovies_tmdb_def
      fetchTrendingMovies_catch_def app_simps Let_def
      split: cache_outcome.splits fetch_outcome.splits json_outcome.splits option.splits)

lemma fetchTrendingMovies_frame:
  "errorMessage (snd (fetchTrendingMovies API_KEY cache net fallback s)) = errorMessage s
   \<and> movieList (snd (fetchTrendingMovies API_KEY cache net fallback s)) = movieList s
   \<and> isLoading (snd (fetchTrendingMovies API_KEY cache net fallback s)) = isLoading s"
  by (simp add: fetchTrendingMovies_def fetchTrendingMovies_try_def fetchTrendingMovies_tmdb_def
      fetchTrendingMovies_catch_def app_simps Let_def
      split: cache_outcome.splits fetch_outcome.splits json_outcome.splits option.splits)

lemma fetchTrendingMovies_sources:
  "trendingMovies (snd (fetchTrendingMovies API_KEY cache net fallback s))
     \<in> {trendingMovies s, []} \<union> {l. cache = CacheReturns (Some l)}
        \<union> {l. liveResults API_KEY net = Some l} \<union> {l. fallback = CacheReturns (Some l)}"
  by (simp add: fetchTrendingMovies_def fetchTrendingMovies_try_def fetchTrendingMovies_tmdb_def
      fetchTrendingMovies_catch_def liveResults_def app_simps Let_def
      split: cache_outcome.splits fetch_outcome.splits json_outcome.splits option.splits)

lemma fetchTrendingMovies_nothing:
  "cacheEmpty cache \<Longrightarrow> cacheEmpty fallback \<Longrightarrow>
   liveResults API_KEY net = None \<or> liveResults API_KEY net = Some [] \<Longrightarrow>
   trendingMovies s = [] \<Longrightarrow>
   trendingMovies (snd (fetchTrendingMovies API_KEY cache net fallback s)) = []"
  by (auto simp add: fetchTrendingMovies_def fetchTrendingMovies_try_def fetchTrendingMovies_tmdb_def
      fetchTrendingMovies_catch_def liveResults_def cacheEmpty_def app_simps Let_def
      split: cache_outcome.splits fetch_outcome.splits json_outcome.splits option.splits if_splits)

lemma fetchTrendingMovies_live_hit:
  "configured API_KEY \<Longrightarrow> response_ok status \<Longrightarrow> results data = Some (m # ms) \<Longrightarrow>
   cache = CacheReturns None \<or> cache = CacheReturns (Some []) \<Longrightarrow>
   fetchTrendingMovies API_KEY cache (Responds status (JsonObject data)) fallback s =
     (case fallback of
        CacheRejects \<Rightarrow>
          (None, s\<lparr>trendingMovies := m # ms,
             effects := effects s @ [GetTrendingMovies,
               Fetch (API_BASE_URL @ ascii ''/trending/movie/week''),
               ConsoleError FetchingTrending ReferenceError, GetTrendingMovies,
               ConsoleError AppwriteFallback AppwriteRejected]\<rparr>)
      | CacheReturns again \<Rightarrow>
          (None, s\<lparr>trendingMovies := (case again of None \<Rightarrow> [] | Some l \<Rightarrow> l),
             effects := effects s @ [GetTrendingMovies,
               Fetch (API_BASE_URL @ ascii ''/trending/movie/week''),
               ConsoleError FetchingTrending ReferenceError, GetTrendingMovies]\<rparr>))"
  by (auto simp add: fetchTrendingMovies_def fetchTrendingMovies_try_def fetchTrendingMovies_tmdb_def
      fetchTrendingMovies_catch_def app_simps Let_def
      split: cache_outcome.splits option.splits)

lemma display_after:
  "display (snd (fetchMovies API_KEY query net counter s)) =
     (if errorMessage (snd (fetchMovies API_KEY query net counter s)) \<noteq> []
      then Failed (errorMessage (snd (fetchMovies API_KEY query net counter s)))
      else Success (movieList (snd (fetchMovies API_KEY query net counter s))))"
  by (simp add: display_def fetchMovies_not_loading)

section \<open>The claims\<close>

text \<open>
  C1, at a run the claim covers: the credential is configured, the first read of the store
  returns an empty list, the live feed answers 200 with two results, and the second read of
  the store returns an empty list. The claim asks for the two live results on display and
  for a persistence call. The component shows the live results, then raises
  \<^verbatim>\<open>ReferenceError\<close> at \<^verbatim>\<open>saveTrendingMovies\<close>, reads the store again in its
  \<^verbatim>\<open>catch\<close> block and ends with the empty list on display; no persistence call is
  among its effects.
\<close>

theorem C1_live_results_overwritten:
  "fetchTrendingMovies (Some (ascii ''key'')) (CacheReturns (Some []))
     (Responds 200 (JsonObject \<lparr>Response = None, Error = None, results = Some [1::nat, 2]\<rparr>))
     (CacheReturns (Some [])) initial =
   (None, \<lparr>errorMessage = [], movieList = [], trendingMovies = [], isLoading = False,
      effects = [GetTrendingMovies, Fetch (API_BASE_URL @ ascii ''/trending/movie/week''),
        ConsoleError FetchingTrending ReferenceError, GetTrendingMovies]\<rparr>)"
proof -
  have k: "configured (Some (ascii ''key''))" by (simp add: configured_def ascii_def)
  have ok: "response_ok 200" by (simp add: response_ok_def)
  show ?thesis
    by (subst fetchTrendingMovies_live_hit[OF k ok, where m = 1 and ms = "[2]"])
      (simp_all add: initial_def)
qed

text \<open>
  C2 as stated fails: for the query "batman", one result and a rejected
  \<^verbatim>\<open>updateSearchCount\<close>, the invocation ends with an error message.
\<close>

theorem C2_counterexample:
  "errorMessage (snd (fetchMovies (Some (ascii ''key'')) (ascii ''batman'')
     (Responds 200 (JsonObject \<lparr>Response = None, Error = None, results = Some [5::nat]\<rparr>))
     Rejects initial)) \<noteq> []"
proof -
  have k: "configured (Some (ascii ''key''))" by (simp add: configured_def ascii_def)
  have w: "isWellFormed (ascii ''batman'')"
    by (simp add: ascii_def isLeadSurrogate_def isTrailSurrogate_def)
  have q: "ascii ''batman'' \<noteq> []" by (simp add: ascii_def)
  have ok: "response_ok 200" by (simp add: response_ok_def)
  obtain url where u: "endpoint_for (ascii ''batman'') = Some url"
    using endpoint_for_defined[OF w] by blast
  show ?thesis
    by (subst fetchMovies_unflagged[OF k u ok]) (simp_all add: q generic_message_nonempty)
qed

text \<open>
  C2, amended: for every non-empty query whose search returns at least one result, a
  rejected \<^verbatim>\<open>updateSearchCount\<close> leaves the movie list equal to the fetched results
  and the loading flag false, and no exception leaves the resolver; but the catch block
  sets the generic error message, which is what the display then shows. When the write
  resolves, the display shows the fetched results.
\<close>

theorem C2_rejected_counter_write:
  assumes "configured API_KEY" and "query \<noteq> []" and "isWellFormed query"
    and "response_ok status" and "Response data \<noteq> Some (ascii ''False'')"
    and "results data = Some (m # ms)"
  shows "fst (fetchMovies API_KEY query (Responds status (JsonObject data)) Rejects s) = None
    \<and> movieList (snd (fetchMovies API_KEY query (Responds status (JsonObject data)) Rejects s))
        = m # ms
    \<and> isLoading (snd (fetchMovies API_KEY query (Responds status (JsonObject data)) Rejects s))
        = False
    \<and> errorMessage (snd (fetchMovies API_KEY query (Responds status (JsonObject data)) Rejects s))
        = generic_message
    \<and> display (snd (fetchMovies API_KEY query (Responds status (JsonObject data)) Rejects s))
        = Failed generic_message
    \<and> display (snd (fetchMovies API_KEY query (Responds status (JsonObject data)) Resolves s))
        = Success (m # ms)"
proof -
  obtain url where u: "endpoint_for query = Some url"
    using endpoint_for_defined[OF assms(3)] by blast
  show ?thesis
    using assms(2,6)
    by (simp add: fetchMovies_unflagged[OF assms(1) u assms(4,5)] display_def
        generic_message_nonempty)
qed

theorem C2_rejected_counter_write_witness:
  "configured (Some (ascii ''key'')) \<and> ascii ''batman'' \<noteq> [] \<and> isWellFormed (ascii ''batman'')
   \<and> response_ok 200
   \<and> movieList (snd (fetchMovies (Some (ascii ''key'')) (ascii ''batman'')
        (Responds 200 (JsonObject \<lparr>Response = None, Error = None, results = Some [5::nat]\<rparr>))
        Rejects initial)) = [5]
   \<and> display (snd (fetchMovies (Some (ascii ''key'')) (ascii ''batman'')
        (Responds 200 (JsonObject \<lparr>Response = None, Error = None, results = Some [5::nat]\<rparr>))
        Rejects initial)) = Failed generic_message"
proof -
  have k: "configured (Some (ascii ''key''))" by (simp add: configured_def ascii_def)
  have q: "ascii ''batman'' \<noteq> []" by (simp add: ascii_def)
  have w: "isWellFormed (ascii ''batman'')"
    by (simp add: ascii_def isLeadSurrogate_def isTrailSurrogate_def)
  have ok: "response_ok 200" by (simp add: response_ok_def)
  have f: "Response \<lparr>Response = None, Error = None, results = Some [5::nat]\<rparr>
      \<noteq> Some (ascii ''False'')" by simp
  have r: "results \<lparr>Response = None, Error = None, results = Some [5::nat]\<rparr> = Some (5 # [])"
    by simp
  show ?thesis
    using k q w ok C2_rejected_counter_write[OF k q w ok f r, of initial] by simp
qed

text \<open>
  C3: when the credential is configured, the request can be made and the provider answers
  with a 2xx status and a body that carries the error flag, the resolver ends without an
  exception and the display is \<open>Failed\<close> with the embedded message when the body has a
  non-empty one, and with "Failed to fetch movies" otherwise; it is never \<open>Success\<close>,
  and the movie list is empty.
\<close>

theorem C3_embedded_error_flag:
  assumes "configured API_KEY" and "isWellFormed query" and "response_ok status"
    and "Response data = Some (ascii ''False'')"
  shows "fst (fetchMovies API_KEY query (Responds status (JsonObject data)) counter s) = None
    \<and> display (snd (fetchMovies API_KEY query (Responds status (JsonObject data)) counter s))
        = Failed (case Error data of
                    None \<Rightarrow> ascii ''Failed to fetch movies''
                  | Some msg \<Rightarrow> if msg \<noteq> [] then msg else ascii ''Failed to fetch movies'')
    \<and> display (snd (fetchMovies API_KEY query (Responds status (JsonObject data)) counter s))
        \<noteq> Success l
    \<and> movieList (snd (fetchMovies API_KEY query (Responds status (JsonObject data)) counter s))
        = []"
proof -
  obtain url where u: "endpoint_for query = Some url"
    using endpoint_for_defined[OF assms(2)] by blast
  have m: "embedded_message data \<noteq> []" by (rule embedded_message_nonempty)
  show ?thesis
    using m by (simp add: fetchMovies_flagged[OF assms(1) u assms(3,4)] display_def)
      (simp add: embedded_message_def)
qed

theorem C3_embedded_error_flag_witness:
  "configured (Some (ascii ''key'')) \<and> isWellFormed (ascii ''batman'') \<and> response_ok 200
   \<and> display (snd (fetchMovies (Some (ascii ''key'')) (ascii ''batman'')
        (Responds 200 (JsonObject \<lparr>Response = Some (ascii ''False''),
           Error = Some (ascii ''Movie not found!''), results = (None :: nat list option)\<rparr>))
        Resolves initial)) = Failed (ascii ''Movie not found!'')
   \<and> display (snd (fetchMovies (Some (ascii ''key'')) (ascii ''batman'')
        (Responds 200 (JsonObject \<lparr>Response = Some (ascii ''False''),
           Error = None, results = Some [5::nat]\<rparr>))
        Resolves initial)) = Failed (ascii ''Failed to fetch movies'')"
proof -
  have k: "configured (Some (ascii ''key''))" by (simp add: configured_def ascii_def)
  have w: "isWellFormed (ascii ''batman'')"
    by (simp add: ascii_def isLeadSurrogate_def isTrailSurrogate_def)
  have ok: "response_ok 200" by (simp add: response_ok_def)
  have f1: "Response \<lparr>Response = Some (ascii ''False''),
      Error = Some (ascii ''Movie not found!''), results = (None :: nat list option)\<rparr>
      = Some (ascii ''False'')" by simp
  have f2: "Response \<lparr>Response = Some (ascii ''False''), Error = None,
      results = Some [5::nat]\<rparr> = Some (ascii ''False'')" by simp
  have ne: "ascii ''Movie not found!'' \<noteq> []" by (simp add: ascii_def)
  show ?thesis
    using k w ok ne C3_embedded_error_flag[OF k w ok f1, of Resolves initial]
      C3_embedded_error_flag[OF k w ok f2, of Resolves initial]
    by simp
qed

text \<open>
  C4: when the first read of the store returns a non-empty list, the resolver ends without
  an exception, the trending list is exactly that list, in its order, and the read of the
  store is the only call the resolver issues: the live feed is not fetched, whatever it
  would have answered.
\<close>

theorem C4_cache_precedence:
  assumes "l \<noteq> []"
  shows "fst (fetchTrendingMovies API_KEY (CacheReturns (Some l)) net fallback s) = None
    \<and> trendingMovies (snd (fetchTrendingMovies API_KEY (CacheReturns (Some l)) net fallback s)) = l
    \<and> issued s (snd (fetchTrendingMovies API_KEY (CacheReturns (Some l)) net fallback s))
        = [GetTrendingMovies]"
  by (simp add: fetchTrendingMovies_cached[OF assms] issued_def)

theorem C4_cache_precedence_witness:
  "[1, 2, 3, 4, 5 :: nat] \<noteq> []
   \<and> trendingMovies (snd (fetchTrendingMovies (Some (ascii ''key''))
        (CacheReturns (Some [1, 2, 3, 4, 5 :: nat]))
        (Responds 200 (JsonObject \<lparr>Response = None, Error = None, results = Some [9]\<rparr>))
        (CacheReturns (Some [])) initial)) = [1, 2, 3, 4, 5]
   \<and> issued initial (snd (fetchTrendingMovies (Some (ascii ''key''))
        (CacheReturns (Some [1, 2, 3, 4, 5 :: nat]))
        (Responds 200 (JsonObject \<lparr>Response = None, Error = None, results = Some [9]\<rparr>))
        (CacheReturns (Some [])) initial)) = [GetTrendingMovies]"
proof -
  have h: "[1, 2, 3, 4, 5 :: nat] \<noteq> []" by simp
  show ?thesis
    using h C4_cache_precedence[OF h, of "Some (ascii ''key'')"
        "Responds 200 (JsonObject \<lparr>Response = None, Error = None, results = Some [9]\<rparr>)"
        "CacheReturns (Some [])" initial]
    by simp
qed

text \<open>
  C5: a search that succeeds for a non-empty query with at least one result issues exactly
  one write, \<^verbatim>\<open>updateSearchCount\<close> with the query text and the first result; an
  invocation with the empty query issues no write, whatever the provider answers; and a
  body whose result list is empty or absent issues no write.
\<close>

theorem C5_counter_increment_writes:
  "(configured API_KEY \<and> query \<noteq> [] \<and> isWellFormed query \<and> response_ok status
      \<and> Response data \<noteq> Some (ascii ''False'') \<and> results data = Some (m # ms)
    \<longrightarrow> filter isNetworkWrite (issued s (snd (fetchMovies API_KEY query
            (Responds status (JsonObject data)) counter s))) = [UpdateSearchCount query m])
   \<and> (query = []
    \<longrightarrow> filter isNetworkWrite (issued s (snd (fetchMovies API_KEY query net counter s))) = [])
   \<and> (results data = Some [] \<or> results data = None
    \<longrightarrow> filter isNetworkWrite (issued s (snd (fetchMovies API_KEY query
            (Responds status (JsonObject data)) counter s))) = [])"
proof (intro conjI impI)
  assume a: "configured API_KEY \<and> query \<noteq> [] \<and> isWellFormed query \<and> response_ok status
      \<and> Response data \<noteq> Some (ascii ''False'') \<and> results data = Some (m # ms)"
  then obtain url where u: "endpoint_for query = Some url"
    using endpoint_for_defined by blast
  from a have c: "configured API_KEY" and ok: "response_ok status"
    and f: "Response data \<noteq> Some (ascii ''False'')" by simp_all
  show "filter isNetworkWrite (issued s (snd (fetchMovies API_KEY query
            (Responds status (JsonObject data)) counter s))) = [UpdateSearchCount query m]"
    using a by (simp add: fetchMovies_unflagged[OF c u ok f] issued_def split: call_outcome.splits)
next
  assume "query = []"
  then show "filter isNetworkWrite (issued s (snd (fetchMovies API_KEY query net counter s))) = []"
    using fetchMovies_writes[of s API_KEY query net counter] by auto
next
  assume "results data = Some [] \<or> results data = None"
  then show "filter isNetworkWrite (issued s (snd (fetchMovies API_KEY query
            (Responds status (JsonObject data)) counter s))) = []"
    using fetchMovies_writes[of s API_KEY query "Responds status (JsonObject data)" counter]
    by auto
qed

theorem C5_counter_increment_writes_witness:
  "configured (Some (ascii ''key'')) \<and> ascii ''batman'' \<noteq> [] \<and> isWellFormed (ascii ''batman'')
   \<and> response_ok 200
   \<and> filter isNetworkWrite (issued initial (snd (fetchMovies (Some (ascii ''key''))
        (ascii ''batman'')
        (Responds 200 (JsonObject \<lparr>Response = None, Error = None, results = Some [5::nat]\<rparr>))
        Resolves initial))) = [UpdateSearchCount (ascii ''batman'') 5]
   \<and> filter isNetworkWrite (issued initial (snd (fetchMovies (Some (ascii ''key'')) []
        (Responds 200 (JsonObject \<lparr>Response = None, Error = None, results = Some [5::nat]\<rparr>))
        Resolves initial))) = []
   \<and> filter isNetworkWrite (issued initial (snd (fetchMovies (Some (ascii ''key''))
        (ascii ''batman'')
        (Responds 200 (JsonObject \<lparr>Response = None, Error = None,
           results = Some ([] :: nat list)\<rparr>))
        Resolves initial))) = []"
proof -
  have k: "configured (Some (ascii ''key''))" by (simp add: configured_def ascii_def)
  have q: "ascii ''batman'' \<noteq> []" by (simp add: ascii_def)
  have w: "isWellFormed (ascii ''batman'')"
    by (simp add: ascii_def isLeadSurrogate_def isTrailSurrogate_def)
  have ok: "response_ok 200" by (simp add: response_ok_def)
  show ?thesis
    using k q w ok
      C5_counter_increment_writes[of "Some (ascii ''key'')" "ascii ''batman''" 200
        "\<lparr>Response = None, Error = None, results = Some [5::nat]\<rparr>" 5 "[]" initial Resolves
        "Responds 200 (JsonObject \<lparr>Response = None, Error = None, results = Some [5::nat]\<rparr>)"]
      C5_counter_increment_writes[of "Some (ascii ''key'')" "[]" 200
        "\<lparr>Response = None, Error = None, results = Some [5::nat]\<rparr>" 5 "[]" initial Resolves
        "Responds 200 (JsonObject \<lparr>Response = None, Error = None, results = Some [5::nat]\<rparr>)"]
      C5_counter_increment_writes[of "Some (ascii ''key'')" "ascii ''batman''" 200
        "\<lparr>Response = None, Error = None, results = Some ([] :: nat list)\<rparr>" 5 "[]" initial
        Resolves FetchRejects]
    by simp
qed

text \<open>
  C6 as stated fails: the query that consists of one unpaired lead surrogate is not empty,
  and the resolver requests nothing for it; \<^verbatim>\<open>encodeURIComponent\<close> throws, and the
  only effect is the line on the console.
\<close>

theorem C6_counterexample:
  "effects (snd (fetchMovies (Some (ascii ''key'')) [0xD800]
     (Responds 200 (JsonObject \<lparr>Response = None, Error = None, results = Some [5::nat]\<rparr>))
     Resolves initial)) = [ConsoleError FetchingMovies URIError]"
proof -
  have k: "configured (Some (ascii ''key''))" by (simp add: configured_def ascii_def)
  have w: "\<not> isWellFormed [0xD800]" by (simp add: isLeadSurrogate_def)
  show ?thesis by (simp add: fetchMovies_illformed[OF k w] initial_def)
qed

text \<open>
  C6, amended: with the credential configured, the empty query makes the resolver request
  the discovery endpoint and nothing else; a non-empty query without unpaired surrogates
  makes it request the keyword-search endpoint followed by a segment that consists of
  unreserved code units and \<^verbatim>\<open>%\<close> escapes only and that decodes back to the query; for
  a query with an unpaired surrogate the resolver requests nothing and the display shows
  the generic error message.
\<close>

theorem C6_endpoint_choice:
  assumes "configured API_KEY"
  shows "(query = [] \<longrightarrow>
      filter isNetworkRead (issued s (snd (fetchMovies API_KEY query net counter s)))
        = [Fetch (API_BASE_URL @ ascii ''/discover/movie?sort_by=popularity.desc'')])
    \<and> (query \<noteq> [] \<and> isWellFormed query \<longrightarrow>
      (\<exists>segment.
         filter isNetworkRead (issued s (snd (fetchMovies API_KEY query net counter s)))
           = [Fetch (API_BASE_URL @ ascii ''/search/movie?query='' @ segment)]
         \<and> list_all urlSafe segment
         \<and> decodeURIComponent segment = Some query))
    \<and> (\<not> isWellFormed query \<longrightarrow>
      filter isNetworkRead (issued s (snd (fetchMovies API_KEY query net counter s))) = []
      \<and> display (snd (fetchMovies API_KEY query net counter s)) = Failed generic_message)"
proof (intro conjI impI)
  assume "query = []"
  then show "filter isNetworkRead (issued s (snd (fetchMovies API_KEY query net counter s)))
        = [Fetch (API_BASE_URL @ ascii ''/discover/movie?sort_by=popularity.desc'')]"
    using assms by (simp add: fetchMovies_reads endpoint_for_empty)
next
  assume a: "query \<noteq> [] \<and> isWellFormed query"
  then obtain segment where e: "encodeURIComponent query = Some segment"
    and u: "endpoint_for query = Some (API_BASE_URL @ ascii ''/search/movie?query='' @ segment)"
    using endpoint_for_wellformed[of query] by blast
  have "filter isNetworkRead (issued s (snd (fetchMovies API_KEY query net counter s)))
           = [Fetch (API_BASE_URL @ ascii ''/search/movie?query='' @ segment)]"
    using assms u by (simp add: fetchMovies_reads)
  moreover have "list_all urlSafe segment"
    using encode_safe[OF e] by (simp add: list_all_iff)
  moreover have "decodeURIComponent segment = Some query"
    by (rule encode_decode[OF e])
  ultimately show "\<exists>segment.
         filter isNetworkRead (issued s (snd (fetchMovies API_KEY query net counter s)))
           = [Fetch (API_BASE_URL @ ascii ''/search/movie?query='' @ segment)]
         \<and> list_all urlSafe segment
         \<and> decodeURIComponent segment = Some query"
    by blast
next
  assume "\<not> isWellFormed query"
  then show "filter isNetworkRead (issued s (snd (fetchMovies API_KEY query net counter s))) = []"
    using assms by (simp add: fetchMovies_reads endpoint_for_illformed)
next
  assume "\<not> isWellFormed query"
  then show "display (snd (fetchMovies API_KEY query net counter s)) = Failed generic_message"
    using assms by (simp add: fetchMovies_illformed display_def generic_message_nonempty)
qed

theorem C6_endpoint_choice_witness:
  "configured (Some (ascii ''key''))
   \<and> filter isNetworkRead (issued initial (snd (fetchMovies (Some (ascii ''key'')) []
        (FetchRejects :: nat fetch_outcome) Resolves initial)))
      = [Fetch (API_BASE_URL @ ascii ''/discover/movie?sort_by=popularity.desc'')]
   \<and> ascii ''a&b c'' \<noteq> [] \<and> isWellFormed (ascii ''a&b c'')
   \<and> (\<exists>segment.
         filter isNetworkRead (issued initial (snd (fetchMovies (Some (ascii ''key''))
           (ascii ''a&b c'') (FetchRejects :: nat fetch_outcome) Resolves initial)))
           = [Fetch (API_BASE_URL @ ascii ''/search/movie?query='' @ segment)]
         \<and> list_all urlSafe segment
         \<and> decodeURIComponent segment = Some (ascii ''a&b c''))
   \<and> \<not> isWellFormed [0xD800]
   \<and> filter isNetworkRead (issued initial (snd (fetchMovies (Some (ascii ''key'')) [0xD800]
        (FetchRejects :: nat fetch_outcome) Resolves initial))) = []"
proof -
  have k: "configured (Some (ascii ''key''))" by (simp add: configured_def ascii_def)
  have q: "ascii ''a&b c'' \<noteq> []" by (simp add: ascii_def)
  have w: "isWellFormed (ascii ''a&b c'')"
    by (simp add: ascii_def isLeadSurrogate_def isTrailSurrogate_def)
  have i: "\<not> isWellFormed [0xD800]" by (simp add: isLeadSurrogate_def)
  show ?thesis
    using k q w i
      C6_endpoint_choice[OF k, of "[]" initial "FetchRejects :: nat fetch_outcome" Resolves]
      C6_endpoint_choice[OF k, of "ascii ''a&b c''" initial "FetchRejects :: nat fetch_outcome"
        Resolves]
      C6_endpoint_choice[OF k, of "[0xD800]" initial "FetchRejects :: nat fetch_outcome" Resolves]
    by simp
qed

text \<open>
  C7, at a run the claim covers: the credential is configured, the first read of the store
  returns an empty list, the live feed answers 200 with a body that carries the error flag
  and one result, and the second read of the store is rejected. Both reads of the store
  are empty or fail and the live feed fails semantically, so the claim asks for the empty
  list. \<^verbatim>\<open>fetchTrendingMovies\<close> never reads \<^verbatim>\<open>data.Response\<close>: it puts the result of
  the flagged body on display, raises \<^verbatim>\<open>ReferenceError\<close> at
  \<^verbatim>\<open>saveTrendingMovies\<close>, and the rejected second read leaves that list in place. No
  exception leaves the resolver and no error message is set.
\<close>

theorem C7_flagged_live_results_displayed:
  "cacheEmpty (CacheReturns (Some ([] :: nat list)))
   \<and> cacheEmpty (CacheRejects :: nat cache_outcome)
   \<and> semanticFailure (Responds 200 (JsonObject \<lparr>Response = Some (ascii ''False''),
        Error = Some (ascii ''Invalid request''), results = Some [9::nat]\<rparr>))
   \<and> fetchTrendingMovies (Some (ascii ''key'')) (CacheReturns (Some []))
        (Responds 200 (JsonObject \<lparr>Response = Some (ascii ''False''),
           Error = Some (ascii ''Invalid request''), results = Some [9::nat]\<rparr>))
        CacheRejects initial =
      (None, \<lparr>errorMessage = [], movieList = [], trendingMovies = [9], isLoading = False,
         effects = [GetTrendingMovies, Fetch (API_BASE_URL @ ascii ''/trending/movie/week''),
           ConsoleError FetchingTrending ReferenceError, GetTrendingMovies,
           ConsoleError AppwriteFallback AppwriteRejected]\<rparr>)"
proof -
  have k: "configured (Some (ascii ''key''))" by (simp add: configured_def ascii_def)
  have ok: "response_ok 200" by (simp add: response_ok_def)
  have run: "fetchTrendingMovies (Some (ascii ''key'')) (CacheReturns (Some []))
        (Responds 200 (JsonObject \<lparr>Response = Some (ascii ''False''),
           Error = Some (ascii ''Invalid request''), results = Some [9::nat]\<rparr>))
        CacheRejects initial =
      (None, \<lparr>errorMessage = [], movieList = [], trendingMovies = [9], isLoading = False,
         effects = [GetTrendingMovies, Fetch (API_BASE_URL @ ascii ''/trending/movie/week''),
           ConsoleError FetchingTrending ReferenceError, GetTrendingMovies,
           ConsoleError AppwriteFallback AppwriteRejected]\<rparr>)"
    by (subst fetchTrendingMovies_live_hit[OF k ok, where m = 9 and ms = "[]"])
      (simp_all add: initial_def)
  show ?thesis
    using run by (simp add: cacheEmpty_def semanticFailure_def ok)
qed

text \<open>
  C8: without a credential the Search Resolver ends without an exception, issues no call
  (its only effect is the line on the console that names the missing key), shows a
  non-empty error message and leaves the movie list as it was.
\<close>

theorem C8_missing_credential:
  assumes "\<not> configured API_KEY"
  shows "fst (fetchMovies API_KEY query net counter s) = None
    \<and> issued s (snd (fetchMovies API_KEY query net counter s))
        = [ConsoleError FetchingMovies MissingApiKey]
    \<and> display (snd (fetchMovies API_KEY query net counter s)) = Failed generic_message
    \<and> movieList (snd (fetchMovies API_KEY query net counter s)) = movieList s"
  by (simp add: fetchMovies_unconfigured[OF assms] issued_def display_def
      generic_message_nonempty)

theorem C8_missing_credential_witness:
  "\<not> configured None
   \<and> fst (fetchMovies None (ascii ''batman'')
        (Responds 200 (JsonObject \<lparr>Response = None, Error = None, results = Some [5::nat]\<rparr>))
        Resolves initial) = None
   \<and> issued initial (snd (fetchMovies None (ascii ''batman'')
        (Responds 200 (JsonObject \<lparr>Response = None, Error = None, results = Some [5::nat]\<rparr>))
        Resolves initial)) = [ConsoleError FetchingMovies MissingApiKey]
   \<and> display (snd (fetchMovies None (ascii ''batman'')
        (Responds 200 (JsonObject \<lparr>Response = None, Error = None, results = Some [5::nat]\<rparr>))
        Resolves initial)) = Failed generic_message"
proof -
  have n: "\<not> configured None" by (simp add: configured_def)
  show ?thesis
    using n C8_missing_credential[OF n, of "ascii ''batman''"
        "Responds 200 (JsonObject \<lparr>Response = None, Error = None, results = Some [5::nat]\<rparr>)"
        Resolves initial]
    by simp
qed

text \<open>
  C9 as stated fails: without a credential the invocation performs no network read.
\<close>

theorem C9_counterexample:
  "length (filter isNetworkRead (issued initial (snd (fetchMovies None (ascii ''batman'')
     (Responds 200 (JsonObject \<lparr>Response = None, Error = None, results = Some [5::nat]\<rparr>))
     Resolves initial)))) \<noteq> 1"
  by (simp add: fetchMovies_reads configured_def)

text \<open>
  C9, amended: an invocation of the Search Resolver performs exactly one network read when
  the credential is configured and the query has no unpaired surrogate, and none otherwise;
  it performs at most one network write, and a write only when the query is not empty and
  the provider's body has at least one result.
\<close>

theorem C9_network_calls:
  "length (filter isNetworkRead (issued s (snd (fetchMovies API_KEY query net counter s))))
     = (if configured API_KEY \<and> isWellFormed query then 1 else 0)
   \<and> length (filter isNetworkWrite (issued s (snd (fetchMovies API_KEY query net counter s))))
       \<le> 1
   \<and> (filter isNetworkWrite (issued s (snd (fetchMovies API_KEY query net counter s))) \<noteq> []
      \<longrightarrow> query \<noteq> []
          \<and> (\<exists>status data m ms. net = Responds status (JsonObject data)
                \<and> results data = Some (m # ms)))"
proof (intro conjI)
  show "length (filter isNetworkRead (issued s (snd (fetchMovies API_KEY query net counter s))))
     = (if configured API_KEY \<and> isWellFormed query then 1 else 0)"
  proof (cases "isWellFormed query")
    case True
    then obtain url where "endpoint_for query = Some url"
      using endpoint_for_defined by blast
    then show ?thesis using True by (simp add: fetchMovies_reads)
  next
    case False
    then show ?thesis by (simp add: fetchMovies_reads endpoint_for_illformed)
  qed
next
  show "length (filter isNetworkWrite (issued s (snd (fetchMovies API_KEY query net counter s))))
       \<le> 1"
    using fetchMovies_writes[of s API_KEY query net counter] by auto
next
  show "filter isNetworkWrite (issued s (snd (fetchMovies API_KEY query net counter s))) \<noteq> []
      \<longrightarrow> query \<noteq> []
          \<and> (\<exists>status data m ms. net = Responds status (JsonObject data)
                \<and> results data = Some (m # ms))"
    using fetchMovies_writes[of s API_KEY query net counter] by auto
qed

theorem C9_network_calls_witness:
  "filter isNetworkWrite (issued initial (snd (fetchMovies (Some (ascii ''key''))
      (ascii ''batman'')
      (Responds 200 (JsonObject \<lparr>Response = None, Error = None, results = Some [5::nat]\<rparr>))
      Resolves initial))) \<noteq> []
   \<and> configured (Some (ascii ''key'')) \<and> isWellFormed (ascii ''batman'')
   \<and> length (filter isNetworkRead (issued initial (snd (fetchMovies (Some (ascii ''key''))
      (ascii ''batman'')
      (Responds 200 (JsonObject \<lparr>Response = None, Error = None, results = Some [5::nat]\<rparr>))
      Resolves initial)))) = 1
   \<and> length (filter isNetworkWrite (issued initial (snd (fetchMovies (Some (ascii ''key''))
      (ascii ''batman'')
      (Responds 200 (JsonObject \<lparr>Response = None, Error = None, results = Some [5::nat]\<rparr>))
      Resolves initial)))) \<le> 1
   \<and> ascii ''batman'' \<noteq> []"
proof -
  have k: "configured (Some (ascii ''key''))" by (simp add: configured_def ascii_def)
  have q: "ascii ''batman'' \<noteq> []" by (simp add: ascii_def)
  have w: "isWellFormed (ascii ''batman'')"
    by (simp add: ascii_def isLeadSurrogate_def isTrailSurrogate_def)
  have ok: "response_ok 200" by (simp add: response_ok_def)
  obtain url where u: "endpoint_for (ascii ''batman'') = Some url"
    using endpoint_for_defined[OF w] by blast
  have n: "filter isNetworkWrite (issued initial (snd (fetchMovies (Some (ascii ''key''))
      (ascii ''batman'')
      (Responds 200 (JsonObject \<lparr>Response = None, Error = None, results = Some [5::nat]\<rparr>))
      Resolves initial))) \<noteq> []"
    by (subst fetchMovies_unflagged[OF k u ok]) (simp_all add: q issued_def)
  show ?thesis
    using n k q w
      C9_network_calls[of initial "Some (ascii ''key'')" "ascii ''batman''"
        "Responds 200 (JsonObject \<lparr>Response = None, Error = None, results = Some [5::nat]\<rparr>)"
        Resolves]
    by simp
qed

text \<open>
  C10, at an invocation the claim covers: the credential is configured, the query is
  "batman", the list on display is not empty, and the provider answers 200 with a body
  that has neither the error flag nor a \<^verbatim>\<open>results\<close> array. This is neither a
  transport nor a semantic failure. Line 57 takes the missing array for the empty list and
  empties the movie list; line 59 then reads \<^verbatim>\<open>data.results.length\<close> without that
  guard and raises \<^verbatim>\<open>TypeError\<close>, so the invocation ends with the generic error
  message and an emptied list, where the claim has the list emptied on a semantic failure
  only.
\<close>

theorem C10_list_emptied_without_flag:
  "\<not> semanticFailure (Responds 200 (JsonObject \<lparr>Response = None, Error = None,
        results = (None :: nat list option)\<rparr>))
   \<and> \<not> transportFailure (Responds 200 (JsonObject \<lparr>Response = None, Error = None,
        results = (None :: nat list option)\<rparr>))
   \<and> fetchMovies (Some (ascii ''key'')) (ascii ''batman'')
        (Responds 200 (JsonObject \<lparr>Response = None, Error = None,
           results = (None :: nat list option)\<rparr>))
        Resolves (initial\<lparr>movieList := [7]\<rparr>) =
      (None, \<lparr>errorMessage = generic_message, movieList = [], trendingMovies = [],
         isLoading = False,
         effects = [Fetch (API_BASE_URL @ ascii ''/search/movie?query=batman''),
           ConsoleError FetchingMovies TypeError]\<rparr>)"
proof -
  have k: "configured (Some (ascii ''key''))" by (simp add: configured_def ascii_def)
  have ok: "response_ok 200" by (simp add: response_ok_def)
  have q: "ascii ''batman'' \<noteq> []" by (simp add: ascii_def)
  have run: "fetchMovies (Some (ascii ''key'')) (ascii ''batman'')
        (Responds 200 (JsonObject \<lparr>Response = None, Error = None,
           results = (None :: nat list option)\<rparr>))
        Resolves (initial\<lparr>movieList := [7]\<rparr>) =
      (None, \<lparr>errorMessage = generic_message, movieList = [], trendingMovies = [],
         isLoading = False,
         effects = [Fetch (API_BASE_URL @ ascii ''/search/movie?query=batman''),
           ConsoleError FetchingMovies TypeError]\<rparr>)"
    by (subst fetchMovies_unflagged[OF k endpoint_for_batman ok]) (simp_all add: q initial_def)
  show ?thesis
    using run by (simp add: semanticFailure_def transportFailure_def ok)
qed

end
